theory Spec2Isabelle
  imports Main "HOL-Library.Sublist"
begin

section \<open>Data model\<close>

text \<open>
  Modelled from the spec: the class \<open>Question\<close> of \<open>models.py\<close> (imported by
  \<open>flaskr/__init__.py\<close>, line 7) is a row of the questions table with the fields
  id, question, answer, category and difficulty. The id is the generated primary key;
  the other columns hold what the handler passes to the constructor, which is
  \<open>None\<close> when \<open>body.get\<close> finds no value.
\<close>

record question =
  q_id :: int
  q_question :: "string option"
  q_answer :: "string option"
  q_category :: "int option"
  q_difficulty :: "int option"

text \<open>
  Modelled from the spec: the class \<open>Category\<close> of \<open>models.py\<close>, a row with
  an id and a type label.
\<close>

record category =
  c_id :: int
  c_type :: string

text \<open>
  The dictionary \<open>Question.format()\<close> returns, as it appears in the JSON responses.
\<close>

record question_dict =
  d_id :: int
  d_question :: "string option"
  d_answer :: "string option"
  d_category :: "int option"
  d_difficulty :: "int option"

text \<open>
  The persistent store every handler reads: the rows of the two tables, in table
  order (the order \<open>query.all()\<close> returns them in), and the counter the next
  generated question id comes from.
\<close>

record store =
  st_questions :: "question list"
  st_categories :: "category list"
  st_next_id :: int

text \<open>
  What a handler reads of the HTTP request besides the JSON body:
  \<open>request.args.get('page', 1, type=int)\<close> yields the default when the parameter is
  absent or is not an integer literal, so \<open>args_page\<close> is \<open>None\<close> in both cases
  and the parsed integer otherwise.
\<close>

record request =
  args_page :: "int option"

text \<open>
  The JSON bodies, one field per \<open>body.get(key)\<close> of the handlers: \<open>None\<close> is
  what \<open>get\<close> returns for a key that is absent (or null).
\<close>

record question_body =
  b_question :: "string option"
  b_answer :: "string option"
  b_category :: "int option"
  b_difficulty :: "int option"

record quiz_category_obj =
  qc_type :: "string option"
  qc_id :: "int option"

record quiz_body =
  b_previous_questions :: "int list option"
  b_quiz_category :: "quiz_category_obj option"

text \<open>
  Errors: \<open>abort(code)\<close> ends the handler with an HTTP error; \<open>one_or_none\<close>
  raises when several rows match; indexing a list out of range raises.
\<close>

datatype error = Abort int | MultipleResultsFound | IndexError

definition abort :: "int \<Rightarrow> error + 'a" where
  "abort code = Inl (Abort code)"

text \<open>The success payloads passed to \<open>jsonify\<close>, one record per handler.\<close>

record get_questions_response =
  gq_success :: bool
  gq_questions :: "question_dict list"
  gq_currentCategory :: "int option list"
  gq_categories :: "int \<rightharpoonup> string"
  gq_total_questions :: nat

record delete_question_response =
  dq_success :: bool
  dq_deleted :: int
  dq_questions :: "question_dict list"
  dq_total_questions :: nat

record post_question_response =
  pq_success :: bool
  pq_created :: int
  pq_questions :: "question_dict list"
  pq_total_questions :: nat

record search_question_response =
  sq_success :: bool
  sq_questions :: "question_dict list"
  sq_currentCategory :: "int option list"
  sq_total_questions :: nat

record get_by_category_response =
  bc_success :: bool
  bc_questions :: "question_dict list"
  bc_currentCategory :: int
  bc_total_questions :: nat

record quiz_response =
  qz_success :: bool
  qz_question :: "question_dict option"


section \<open>The store accessors\<close>

text \<open>
  Modelled from the spec: \<open>Question.format\<close> of \<open>models.py\<close>, the externally
  visible representation of a stored question, with the fields of the data model.
\<close>

definition question_format :: "question \<Rightarrow> question_dict" where
  "question_format q =
     \<lparr>d_id = q_id q, d_question = q_question q, d_answer = q_answer q,
      d_category = q_category q, d_difficulty = q_difficulty q\<rparr>"

text \<open>
  Modelled from the spec: \<open>Question.insert\<close> of \<open>models.py\<close> together with the
  constructor call before it: the new row is built from (question, answer, category,
  difficulty), gets a generated id that was never used before, and is persisted. The
  function returns the persisted object (whose \<open>id\<close> the handler reads) and the
  new store.
\<close>

definition question_insert ::
  "string option \<Rightarrow> string option \<Rightarrow> int option \<Rightarrow> int option \<Rightarrow> store \<Rightarrow> question \<times> store" where
  "question_insert new_question new_answer new_category new_difficulty st =
     (let q = \<lparr>q_id = st_next_id st, q_question = new_question, q_answer = new_answer,
                q_category = new_category, q_difficulty = new_difficulty\<rparr>
      in (q, st\<lparr>st_questions := st_questions st @ [q], st_next_id := st_next_id st + 1\<rparr>))"

text \<open>
  Modelled from the spec: \<open>Question.delete\<close> of \<open>models.py\<close>, which removes the
  row of the object's primary key.
\<close>

definition question_delete :: "question \<Rightarrow> store \<Rightarrow> store" where
  "question_delete q st =
     st\<lparr>st_questions := filter (\<lambda>r. q_id r \<noteq> q_id q) (st_questions st)\<rparr>"

text \<open>
  The invariant the generated primary key gives the questions table: ids are unique,
  and every id in use was issued by the counter.
\<close>

definition store_ok :: "store \<Rightarrow> bool" where
  "store_ok st \<longleftrightarrow>
     distinct (map q_id (st_questions st)) \<and>
     (\<forall>q \<in> set (st_questions st). q_id q < st_next_id st)"

text \<open>\<open>Question.query.order_by(Question.id).all()\<close>\<close>

definition order_by_id :: "question list \<Rightarrow> question list" where
  "order_by_id rows = sort_key q_id rows"

text \<open>\<open>query.one_or_none()\<close>: the row, \<open>None\<close>, or an exception for several rows.\<close>

fun one_or_none :: "'a list \<Rightarrow> error + 'a option" where
  "one_or_none [] = Inr None"
| "one_or_none [x] = Inr (Some x)"
| "one_or_none (x # y # zs) = Inl MultipleResultsFound"

text \<open>
  SQL \<open>LIKE\<close>: in the pattern \<open>%\<close> matches any sequence of characters,
  \<open>_\<close> any single character, and a backslash makes the character after it literal
  (a pattern ending in a lone backslash matches nothing here; the handler's patterns
  always end in \<open>%\<close>).
\<close>

fun like :: "string \<Rightarrow> string \<Rightarrow> bool" where
  "like [] s = (s = [])"
| "like (p # ps) s =
     (if p = CHR ''%'' then
        like ps s \<or> (case s of [] \<Rightarrow> False | c # s' \<Rightarrow> like (p # ps) s')
      else if p = CHR ''_'' then
        (case s of [] \<Rightarrow> False | c # s' \<Rightarrow> like ps s')
      else if p = CHR 0x5C then
        (case ps of [] \<Rightarrow> False
         | e # ps' \<Rightarrow> (case s of [] \<Rightarrow> False | c # s' \<Rightarrow> c = e \<and> like ps' s'))
      else
        (case s of [] \<Rightarrow> False | c # s' \<Rightarrow> c = p \<and> like ps s'))"

text \<open>Case folding of the ASCII letters, and \<open>ILIKE\<close>: \<open>LIKE\<close> up to case.\<close>

definition lower_char :: "char \<Rightarrow> char" where
  "lower_char c =
     (let n = (of_char c :: nat) in if 65 \<le> n \<and> n \<le> 90 then char_of (n + 32) else c)"

definition lower :: "string \<Rightarrow> string" where
  "lower s = map lower_char s"

definition ilike :: "string \<Rightarrow> string \<Rightarrow> bool" where
  "ilike pattern s = like (lower pattern) (lower s)"

text \<open>
  \<open>Question.question.ilike(pattern)\<close> as a filter on a row: a null question text
  matches no pattern.
\<close>

definition question_ilike :: "string \<Rightarrow> question \<Rightarrow> bool" where
  "question_ilike pattern q =
     (case q_question q of None \<Rightarrow> False | Some txt \<Rightarrow> ilike pattern txt)"

text \<open>
  The filters of the queries, each on the rows a query has selected so far:
  \<open>filter(Question.question.ilike(pattern))\<close>,
  \<open>filter(Question.id == question_id)\<close>,
  \<open>filter(Question.category == category_id)\<close> (also \<open>filter_by(category=...)\<close>; a
  null category equals no id) and \<open>filter(Question.id.notin_(ids))\<close>.
\<close>

definition filter_ilike :: "string \<Rightarrow> question list \<Rightarrow> question list" where
  "filter_ilike pattern rows = filter (question_ilike pattern) rows"

definition filter_id :: "int \<Rightarrow> question list \<Rightarrow> question list" where
  "filter_id question_id rows = filter (\<lambda>q. q_id q = question_id) rows"

definition filter_category :: "int \<Rightarrow> question list \<Rightarrow> question list" where
  "filter_category category_id rows = filter (\<lambda>q. q_category q = Some category_id) rows"

definition filter_id_notin :: "int list \<Rightarrow> question list \<Rightarrow> question list" where
  "filter_id_notin ids rows = filter (\<lambda>q. q_id q \<notin> set ids) rows"


section \<open>The helpers of \<open>flaskr/__init__.py\<close>\<close>

definition QUESTIONS_PER_PAGE :: int where
  "QUESTIONS_PER_PAGE = 10"

text \<open>
  Python's \<open>xs[start:stop]\<close>: a negative bound counts from the end, and both bounds
  are clamped to the list, so no slice raises.
\<close>

definition py_slice :: "'a list \<Rightarrow> int \<Rightarrow> int \<Rightarrow> 'a list" where
  "py_slice xs start stop =
     (let n = int (length xs);
          lo = (if start < 0 then max 0 (start + n) else min start n);
          hi = (if stop < 0 then max 0 (stop + n) else min stop n)
      in take (nat (hi - lo)) (drop (nat lo) xs))"

text \<open>\<open>request.args.get('page', default, type=int)\<close>\<close>

definition args_get_page :: "request \<Rightarrow> int \<Rightarrow> int" where
  "args_get_page request dflt = (case args_page request of None \<Rightarrow> dflt | Some p \<Rightarrow> p)"

definition paginate_questions :: "request \<Rightarrow> question list \<Rightarrow> question_dict list" where
  "paginate_questions request selection =
     (let page = args_get_page request 1;
          start = (page - 1) * QUESTIONS_PER_PAGE;
          stop = start + QUESTIONS_PER_PAGE;
          questions = map question_format selection;
          current_questions = py_slice questions start stop
      in current_questions)"

definition read_categories :: "store \<Rightarrow> (int \<rightharpoonup> string)" where
  "read_categories st =
     fold (\<lambda>category category_dict. category_dict(c_id category \<mapsto> c_type category))
       (st_categories st) Map.empty"


section \<open>The route handlers\<close>

text \<open>\<open>GET /questions\<close>\<close>

definition get_questions :: "store \<Rightarrow> request \<Rightarrow> error + get_questions_response" where
  "get_questions st request =
     (let selection = order_by_id (st_questions st);
          current_questions = paginate_questions request selection;
          categories = read_categories st
      in if length current_questions = 0 then abort 404
         else
           let category_ids = map q_category selection
           in Inr \<lparr>gq_success = True,
                   gq_questions = current_questions,
                   gq_currentCategory = category_ids,
                   gq_categories = categories,
                   gq_total_questions = length (st_questions st)\<rparr>)"

text \<open>
  \<open>DELETE /questions/<question_id>\<close>: the response and the store the request leaves.
\<close>

definition delete_question ::
  "store \<Rightarrow> request \<Rightarrow> int \<Rightarrow> (error + delete_question_response) \<times> store" where
  "delete_question st request question_id =
     (case one_or_none (filter_id question_id (st_questions st)) of
        Inl e \<Rightarrow> (Inl e, st)
      | Inr None \<Rightarrow> (abort 404, st)
      | Inr (Some question) \<Rightarrow>
          (let st' = question_delete question st;
               selection = order_by_id (st_questions st');
               current_questions = paginate_questions request selection
           in (Inr \<lparr>dq_success = True,
                    dq_deleted = question_id,
                    dq_questions = current_questions,
                    dq_total_questions = length (st_questions st')\<rparr>, st')))"

text \<open>\<open>POST /questions\<close>: the response and the store the request leaves.\<close>

definition post_question ::
  "store \<Rightarrow> request \<Rightarrow> question_body \<Rightarrow> (error + post_question_response) \<times> store" where
  "post_question st request body =
     (let new_question = b_question body;
          new_answer = b_answer body;
          new_category = b_category body;
          new_difficulty = b_difficulty body
      in if new_question = Some [] \<or> new_answer = Some [] then (abort 422, st)
         else
           let (question, st') =
                 question_insert new_question new_answer new_category new_difficulty st;
               selection = order_by_id (st_questions st');
               current_questions = paginate_questions request selection
           in (Inr \<lparr>pq_success = True,
                    pq_created = q_id question,
                    pq_questions = current_questions,
                    pq_total_questions = length (st_questions st')\<rparr>, st'))"

text \<open>\<open>POST /search\<close>; the argument is \<open>request.get_json().get('searchTerm')\<close>.\<close>

definition search_question ::
  "store \<Rightarrow> request \<Rightarrow> string option \<Rightarrow> error + search_question_response" where
  "search_question st request search_term =
     (case search_term of
        None \<Rightarrow> abort 422
      | Some term \<Rightarrow>
          if term = [] then abort 422
          else
            let selection =
                  filter_ilike (''%'' @ term @ ''%'') (st_questions st);
                current_questions = paginate_questions request selection;
                category_ids = map q_category selection
            in Inr \<lparr>sq_success = True,
                    sq_questions = current_questions,
                    sq_currentCategory = category_ids,
                    sq_total_questions = length selection\<rparr>)"

text \<open>\<open>GET /categories/<category_id>/questions\<close>\<close>

definition get_by_category ::
  "store \<Rightarrow> request \<Rightarrow> int \<Rightarrow> error + get_by_category_response" where
  "get_by_category st request category_id =
     (let questions = st_questions st;
          category_ids = map q_category questions
      in if Some category_id \<notin> set category_ids then abort 422
         else
           let selection = filter_category category_id (st_questions st);
               current_questions = paginate_questions request selection
           in Inr \<lparr>bc_success = True,
                   bc_questions = current_questions,
                   bc_currentCategory = category_id,
                   bc_total_questions = length selection\<rparr>)"

text \<open>
  \<open>POST /quizzes\<close>. \<open>randrange n\<close> is the outcome of
  \<open>random.randrange(0, n)\<close>, a draw from \<open>0, ..., n - 1\<close>; indexing the
  selection with anything else would raise.
\<close>

definition quiz :: "(nat \<Rightarrow> nat) \<Rightarrow> store \<Rightarrow> quiz_body \<Rightarrow> error + quiz_response" where
  "quiz randrange st body =
     (case (b_previous_questions body, b_quiz_category body) of
        (Some previous_questions, Some quiz_category) \<Rightarrow>
          (let quiz_category_id = (case qc_id quiz_category of None \<Rightarrow> 0 | Some i \<Rightarrow> i);
               selection =
                 (if quiz_category_id = 0 then
                    filter_id_notin previous_questions (st_questions st)
                  else
                    filter_id_notin previous_questions
                      (filter_category quiz_category_id (st_questions st)))
           in if length selection > 0 then
                (let r = randrange (length selection)
                 in if r < length selection then
                      Inr \<lparr>qz_success = True,
                           qz_question = Some (question_format (selection ! r))\<rparr>
                    else Inl IndexError)
              else Inr \<lparr>qz_success = True, qz_question = None\<rparr>)
      | _ \<Rightarrow> abort 422)"

section \<open>The specification's wording\<close>

text \<open>
  The candidate set of the quiz as the specification words it: the questions,
  restricted to the given category when its id is nonzero, whose id is not in the
  list of previous questions.
\<close>

definition quiz_candidates :: "int list \<Rightarrow> int \<Rightarrow> question list \<Rightarrow> question list" where
  "quiz_candidates previous_questions category_id rows =
     filter (\<lambda>q. q_id q \<notin> set previous_questions \<and>
                 (category_id = 0 \<or> q_category q = Some category_id)) rows"

text \<open>
  The search filter as the specification words it: the question text contains the
  search term as a substring, up to the case of letters.
\<close>

definition question_contains :: "string \<Rightarrow> question \<Rightarrow> bool" where
  "question_contains term q =
     (case q_question q of None \<Rightarrow> False | Some txt \<Rightarrow> sublist (lower term) (lower txt))"

definition filter_contains :: "string \<Rightarrow> question list \<Rightarrow> question list" where
  "filter_contains term rows = filter (question_contains term) rows"

text \<open>A search term none of whose characters \<open>LIKE\<close> reads as a wildcard or an escape.\<close>

definition wildcard_free :: "string \<Rightarrow> bool" where
  "wildcard_free term \<longleftrightarrow>
     CHR ''%'' \<notin> set term \<and> CHR ''_'' \<notin> set term \<and> CHR 0x5C \<notin> set term"


section \<open>Example data\<close>

definition example_question :: "int \<Rightarrow> question" where
  "example_question i =
     \<lparr>q_id = i, q_question = Some ''Q'', q_answer = Some ''A'',
      q_category = Some 1, q_difficulty = Some 2\<rparr>"

definition eleven_questions :: "question list" where
  "eleven_questions = map example_question [1, 2, 3, 4, 5, 6, 7, 8, 9, 10, 11]"

definition example_categories :: "category list" where
  "example_categories = [\<lparr>c_id = 1, c_type = ''Science''\<rparr>, \<lparr>c_id = 2, c_type = ''Art''\<rparr>]"

definition example_store :: store where
  "example_store =
     \<lparr>st_questions = eleven_questions, st_categories = example_categories, st_next_id = 12\<rparr>"

definition mona_lisa :: question where
  "mona_lisa =
     \<lparr>q_id = 4, q_question = Some ''Who painted the Mona Lisa'', q_answer = Some ''Leonardo'',
      q_category = Some 2, q_difficulty = Some 1\<rparr>"

definition times_two :: question where
  "times_two =
     \<lparr>q_id = 5, q_question = Some ''What is 100 times 2'', q_answer = Some ''200'',
      q_category = Some 1, q_difficulty = Some 2\<rparr>"

definition small_store :: store where
  "small_store =
     \<lparr>st_questions = [mona_lisa, times_two], st_categories = example_categories, st_next_id = 6\<rparr>"

definition capital_store :: store where
  "capital_store =
     \<lparr>st_questions = [mona_lisa, times_two,
        \<lparr>q_id = 6, q_question = Some ''What is the Capital'', q_answer = Some ''Paris'',
         q_category = Some 3, q_difficulty = Some 1\<rparr>],
      st_categories = example_categories, st_next_id = 7\<rparr>"

definition question_q :: question where
  "question_q =
     \<lparr>q_id = 6, q_question = Some ''Q'', q_answer = Some ''A'',
      q_category = Some 1, q_difficulty = Some 2\<rparr>"

definition question_null :: question where
  "question_null =
     \<lparr>q_id = 6, q_question = None, q_answer = Some ''A'',
      q_category = Some 1, q_difficulty = None\<rparr>"

definition hamlet :: question where
  "hamlet =
     \<lparr>q_id = 12, q_question = Some ''Who wrote Hamlet'', q_answer = Some ''Shakespeare'',
      q_category = Some 2, q_difficulty = Some 3\<rparr>"

definition untitled :: question where
  "untitled =
     \<lparr>q_id = 13, q_question = None, q_answer = Some ''A'',
      q_category = Some 1, q_difficulty = Some 1\<rparr>"

definition mixed_store :: store where
  "mixed_store =
     \<lparr>st_questions = hamlet # eleven_questions @ [untitled],
      st_categories = example_categories, st_next_id = 14\<rparr>"


section \<open>Pagination\<close>

lemma py_slice_nonneg:
  assumes "0 \<le> start" "start \<le> stop"
  shows "py_slice xs start stop = take (nat (stop - start)) (drop (nat start) xs)"
proof (cases "start \<le> int (length xs)")
  case True
  have "take (nat (min stop (int (length xs)) - start)) (drop (nat start) xs)
      = take (nat (stop - start)) (drop (nat start) xs)"
  proof (cases "stop \<le> int (length xs)")
    case True then show ?thesis by simp
  next
    case False
    with True assms have "length (drop (nat start) xs) \<le> nat (min stop (int (length xs)) - start)"
      by simp
    moreover from False True assms have "length (drop (nat start) xs) \<le> nat (stop - start)"
      by simp
    ultimately show ?thesis by simp
  qed
  with True assms show ?thesis by (simp add: py_slice_def Let_def)
next
  case False
  with assms show ?thesis by (simp add: py_slice_def Let_def)
qed

lemma py_slice_stop_zero: "py_slice xs start 0 = []"
  by (simp add: py_slice_def Let_def)

lemma slice_bounds_le:
  fixes n start k :: int
  assumes "0 \<le> k" "0 \<le> n"
  shows "(if start + k < 0 then max 0 (start + k + n) else min (start + k) n)
       - (if start < 0 then max 0 (start + n) else min start n) \<le> k"
  using assms by (simp add: min_def max_def)

lemma length_py_slice_le:
  assumes "0 \<le> k"
  shows "length (py_slice xs start (start + k)) \<le> nat k"
proof -
  have "length (py_slice xs start (start + k)) \<le>
      nat ((if start + k < 0 then max 0 (start + k + int (length xs)) else min (start + k) (int (length xs)))
       - (if start < 0 then max 0 (start + int (length xs)) else min start (int (length xs))))"
    unfolding py_slice_def Let_def by (simp only: length_take min.cobounded2)
  also have "\<dots> \<le> nat k"
    using slice_bounds_le [OF assms, of "int (length xs)" start] by (simp only: nat_mono of_nat_0_le_iff)
  finally show ?thesis .
qed

lemma paginate_questions_slice:
  "paginate_questions request selection =
     py_slice (map question_format selection)
       ((args_get_page request 1 - 1) * 10) ((args_get_page request 1 - 1) * 10 + 10)"
  by (simp add: paginate_questions_def QUESTIONS_PER_PAGE_def Let_def)

lemma length_paginate_questions_le: "length (paginate_questions request selection) \<le> 10"
  using length_py_slice_le [where k = 10 and xs = "map question_format selection"
      and start = "(args_get_page request 1 - 1) * 10"]
  by (simp add: paginate_questions_slice)

lemma paginate_questions_take_drop:
  assumes "1 \<le> args_get_page request 1"
  shows "paginate_questions request selection =
     take 10 (drop (nat (10 * (args_get_page request 1 - 1))) (map question_format selection))"
  using assms py_slice_nonneg [of "(args_get_page request 1 - 1) * 10" "(args_get_page request 1 - 1) * 10 + 10" "map question_format selection"]
  by (simp add: paginate_questions_slice mult.commute)

lemma set_paginate_questions:
  "set (paginate_questions request selection) \<subseteq> question_format ` set selection"
proof -
  have "set (py_slice xs a b) \<subseteq> set xs" for xs :: "question_dict list" and a b
    unfolding py_slice_def Let_def 
    by (meson set_take_subset set_drop_subset subset_trans)
  from this [of "map question_format selection"] show ?thesis
    by (simp add: paginate_questions_slice)
qed

text \<open>
  C1 (as amended): for every selection of length N and every page p \<open>\<ge>\<close> 1 (1 when
  the parameter is absent), \<open>paginate_questions\<close> returns the formatted items at
  positions \<open>10 * (p - 1)\<close> up to \<open>10 * p\<close>, and their number is
  \<open>min(10, max(0, N - 10 * (p - 1)))\<close>; the result is empty for p = 0 and for a
  page beyond the end of the list. The function returns a list for every integer
  page: no case of it is an error.
\<close>

theorem paginate_questions_page:
  "(1 \<le> args_get_page request 1 \<longrightarrow>
      paginate_questions request selection =
        take 10 (drop (nat (10 * (args_get_page request 1 - 1))) (map question_format selection)) \<and>
      int (length (paginate_questions request selection)) =
        min 10 (max 0 (int (length selection) - 10 * (args_get_page request 1 - 1)))) \<and>
   (args_get_page request 1 = 0 \<longrightarrow> paginate_questions request selection = []) \<and>
   (1 \<le> args_get_page request 1 \<and> int (length selection) \<le> 10 * (args_get_page request 1 - 1) \<longrightarrow>
      paginate_questions request selection = []) \<and>
   (args_page request = None \<longrightarrow> args_get_page request 1 = 1)"
proof (intro conjI impI)
  assume p: "1 \<le> args_get_page request 1"
  show eq: "paginate_questions request selection =
        take 10 (drop (nat (10 * (args_get_page request 1 - 1))) (map question_format selection))"
    using p by (rule paginate_questions_take_drop)
  show "int (length (paginate_questions request selection)) =
        min 10 (max 0 (int (length selection) - 10 * (args_get_page request 1 - 1)))"
  proof -
    have "int (length (take 10 (drop (nat (10 * (args_get_page request 1 - 1))) (map question_format selection)))) =
        min 10 (int (length selection - nat (10 * (args_get_page request 1 - 1))))"
      by simp
    also have "int (length selection - nat (10 * (args_get_page request 1 - 1))) =
        max 0 (int (length selection) - 10 * (args_get_page request 1 - 1))"
      using p by (simp add: max_def nat_diff_distrib' of_nat_diff)
    finally show ?thesis by (simp only: eq)
  qed
next
  assume "args_get_page request 1 = 0"
  then show "paginate_questions request selection = []"
    by (simp add: paginate_questions_slice py_slice_stop_zero)
next
  assume "1 \<le> args_get_page request 1 \<and> int (length selection) \<le> 10 * (args_get_page request 1 - 1)"
  then have "1 \<le> args_get_page request 1"
    and "length selection \<le> nat (10 * (args_get_page request 1 - 1))"
    by linarith+
  then show "paginate_questions request selection = []"
    by (simp only: paginate_questions_take_drop) simp
next
  assume "args_page request = None"
  then show "args_get_page request 1 = 1" by (simp add: args_get_page_def)
qed


theorem paginate_questions_page_witness:
  "paginate_questions \<lparr>args_page = Some 2\<rparr> eleven_questions =
     [question_format (example_question 11)] \<and>
   int (length (paginate_questions \<lparr>args_page = Some 2\<rparr> eleven_questions)) = 1 \<and>
   paginate_questions \<lparr>args_page = Some 0\<rparr> eleven_questions = [] \<and>
   paginate_questions \<lparr>args_page = Some 3\<rparr> eleven_questions = [] \<and>
   args_get_page \<lparr>args_page = None\<rparr> 1 = 1"
  using paginate_questions_page [of "\<lparr>args_page = Some 2\<rparr>" eleven_questions]
    paginate_questions_page [of "\<lparr>args_page = Some 0\<rparr>" eleven_questions]
    paginate_questions_page [of "\<lparr>args_page = Some 3\<rparr>" eleven_questions]
    paginate_questions_page [of "\<lparr>args_page = None\<rparr>" eleven_questions]
  by (simp add: args_get_page_def eleven_questions_def)

text \<open>
  The claim as stated fails at a negative page, where the slice counts from the end
  of the list (page -1 of eleven questions holds the first of them), and its length
  formula fails at page 0, where it gives 10 and the page is empty.
\<close>

theorem paginate_questions_counterexample:
  "paginate_questions \<lparr>args_page = Some (- 1)\<rparr> eleven_questions \<noteq> [] \<and>
   int (length (paginate_questions \<lparr>args_page = Some 0\<rparr> eleven_questions)) \<noteq>
     min 10 (max 0 (int (length eleven_questions) - 10 * (0 - 1)))"
  by (simp add: paginate_questions_def args_get_page_def QUESTIONS_PER_PAGE_def
      py_slice_def Let_def eleven_questions_def)

section \<open>\<open>GET /questions\<close>\<close>

lemma read_categories_fold:
  "fold (\<lambda>category category_dict. category_dict(c_id category \<mapsto> c_type category)) cats m k =
     (case map_of (rev (map (\<lambda>c. (c_id c, c_type c)) cats)) k of None \<Rightarrow> m k | Some v \<Rightarrow> Some v)"
  by (induction cats arbitrary: m) (auto simp: map_add_def split: option.splits)

lemma dom_read_categories: "dom (read_categories st) = c_id ` set (st_categories st)"
proof -
  have "dom (fold (\<lambda>category category_dict. category_dict(c_id category \<mapsto> c_type category)) cats m)
      = dom m \<union> c_id ` set cats" for cats and m :: "int \<rightharpoonup> string"
    by (induction cats arbitrary: m) auto
  from this [of "st_categories st" Map.empty] show ?thesis
    by (simp add: read_categories_def)
qed

lemma read_categories_label:
  assumes "distinct (map c_id (st_categories st))" "c \<in> set (st_categories st)"
  shows "read_categories st (c_id c) = Some (c_type c)"
proof -
  have "distinct (map fst (rev (map (\<lambda>c. (c_id c, c_type c)) (st_categories st))))"
    using assms(1) by (simp add: rev_map [symmetric] comp_def)
  moreover have "(c_id c, c_type c) \<in> set (rev (map (\<lambda>c. (c_id c, c_type c)) (st_categories st)))"
    using assms(2) by auto
  ultimately have "map_of (rev (map (\<lambda>c. (c_id c, c_type c)) (st_categories st))) (c_id c) = Some (c_type c)"
    by (rule map_of_is_SomeI)
  then show ?thesis by (simp add: read_categories_def read_categories_fold)
qed

text \<open>
  C7: \<open>GET /questions\<close> returns 404 if and only if the requested page (1 when the
  parameter is absent) of the id-ordered questions is empty; otherwise the payload
  holds that page, \<open>total_questions\<close> equal to the number of all stored
  questions, the category values of all questions (in id order, one per question) and
  the map from category id to label, whose keys are the ids of the category rows and
  which sends the id of every category row to its label when the ids are unique.
\<close>

theorem get_questions_result:
  "(get_questions st request = abort 404 \<longleftrightarrow>
      paginate_questions request (order_by_id (st_questions st)) = []) \<and>
   (paginate_questions request (order_by_id (st_questions st)) \<noteq> [] \<longrightarrow>
      get_questions st request =
        Inr \<lparr>gq_success = True,
             gq_questions = paginate_questions request (order_by_id (st_questions st)),
             gq_currentCategory = map q_category (order_by_id (st_questions st)),
             gq_categories = read_categories st,
             gq_total_questions = length (st_questions st)\<rparr>) \<and>
   sorted (map q_id (order_by_id (st_questions st))) \<and>
   set (order_by_id (st_questions st)) = set (st_questions st) \<and>
   length (map q_category (order_by_id (st_questions st))) = length (st_questions st) \<and>
   dom (read_categories st) = c_id ` set (st_categories st) \<and>
   (distinct (map c_id (st_categories st)) \<longrightarrow>
      (\<forall>c \<in> set (st_categories st). read_categories st (c_id c) = Some (c_type c)))"
  by (simp add: get_questions_def abort_def Let_def order_by_id_def dom_read_categories
      read_categories_label)

theorem get_questions_result_witness:
  "get_questions example_store \<lparr>args_page = Some 2\<rparr> =
     Inr \<lparr>gq_success = True,
          gq_questions = [question_format (example_question 11)],
          gq_currentCategory = map q_category eleven_questions,
          gq_categories = read_categories example_store,
          gq_total_questions = 11\<rparr> \<and>
   get_questions example_store \<lparr>args_page = Some 3\<rparr> = abort 404 \<and>
   read_categories example_store 1 = Some ''Science'' \<and>
   read_categories example_store 2 = Some ''Art''"
proof -
  have sorted: "order_by_id eleven_questions = eleven_questions"
    by (simp add: order_by_id_def eleven_questions_def example_question_def)
  have p2: "paginate_questions \<lparr>args_page = Some 2\<rparr> eleven_questions =
      [question_format (example_question 11)]"
    by (simp add: paginate_questions_def args_get_page_def QUESTIONS_PER_PAGE_def
        py_slice_def Let_def eleven_questions_def)
  have p3: "paginate_questions \<lparr>args_page = Some 3\<rparr> eleven_questions = []"
    by (simp add: paginate_questions_def args_get_page_def QUESTIONS_PER_PAGE_def
        py_slice_def Let_def eleven_questions_def)
  have len: "length eleven_questions = 11"
    by (simp add: eleven_questions_def)
  show ?thesis
    using get_questions_result [of example_store "\<lparr>args_page = Some 2\<rparr>"]
      get_questions_result [of example_store "\<lparr>args_page = Some 3\<rparr>"]
    by (simp add: example_store_def sorted p2 p3 len example_categories_def)
qed


section \<open>\<open>GET /categories/<category_id>/questions\<close>\<close>

text \<open>
  C3 (as amended): the handler returns 422 if and only if no stored question has the
  category value, whatever the category rows are; otherwise the payload holds the page
  selected by the page parameter (ten per page) of the questions whose category equals
  the id exactly, and \<open>total_questions\<close> is the number of all such questions.
\<close>

theorem get_by_category_result:
  "(get_by_category st request category_id = abort 422 \<longleftrightarrow>
      Some category_id \<notin> q_category ` set (st_questions st)) \<and>
   (Some category_id \<in> q_category ` set (st_questions st) \<longrightarrow>
      get_by_category st request category_id =
        Inr \<lparr>bc_success = True,
             bc_questions = paginate_questions request (filter_category category_id (st_questions st)),
             bc_currentCategory = category_id,
             bc_total_questions = length (filter_category category_id (st_questions st))\<rparr>) \<and>
   get_by_category (st\<lparr>st_categories := cats\<rparr>) request category_id =
     get_by_category st request category_id \<and>
   set (filter_category category_id (st_questions st)) =
     {q \<in> set (st_questions st). q_category q = Some category_id}"
  by (auto simp add: get_by_category_def abort_def Let_def filter_category_def)

theorem get_by_category_result_witness:
  "get_by_category example_store \<lparr>args_page = Some 2\<rparr> 1 =
     Inr \<lparr>bc_success = True,
          bc_questions = [question_format (example_question 11)],
          bc_currentCategory = 1,
          bc_total_questions = 11\<rparr> \<and>
   get_by_category example_store \<lparr>args_page = Some 2\<rparr> 2 = abort 422"
proof -
  have f1: "filter_category 1 eleven_questions = eleven_questions"
    by (simp add: filter_category_def eleven_questions_def example_question_def)
  have p2: "paginate_questions \<lparr>args_page = Some 2\<rparr> eleven_questions =
      [question_format (example_question 11)]"
    by (simp add: paginate_questions_def args_get_page_def QUESTIONS_PER_PAGE_def
        py_slice_def Let_def eleven_questions_def)
  have len: "length eleven_questions = 11"
    by (simp add: eleven_questions_def)
  have cats: "q_category ` set eleven_questions = {Some 1}"
    by (simp add: eleven_questions_def example_question_def)
  show ?thesis
    using get_by_category_result [of example_store "\<lparr>args_page = Some 2\<rparr>" 1]
      get_by_category_result [of example_store "\<lparr>args_page = Some 2\<rparr>" 2]
    by (simp add: example_store_def f1 p2 len cats)
qed

text \<open>
  The claim as stated fails where more than ten questions have the category: of eleven
  questions of category 1 the response lists the first ten, while
  \<open>total_questions\<close> is 11.
\<close>

theorem get_by_category_counterexample:
  "get_by_category example_store \<lparr>args_page = None\<rparr> 1 =
     Inr \<lparr>bc_success = True,
          bc_questions = map question_format (take 10 eleven_questions),
          bc_currentCategory = 1,
          bc_total_questions = 11\<rparr> \<and>
   filter_category 1 (st_questions example_store) = eleven_questions \<and>
   map question_format (take 10 eleven_questions) \<noteq> map question_format eleven_questions"
  by (simp add: get_by_category_def abort_def Let_def example_store_def filter_category_def
      paginate_questions_def args_get_page_def QUESTIONS_PER_PAGE_def py_slice_def
      eleven_questions_def example_question_def)


section \<open>\<open>POST /quizzes\<close>\<close>

text \<open>
  C8: \<open>POST /quizzes\<close> returns 422 if and only if \<open>previous_questions\<close> or
  \<open>quiz_category\<close> is missing from the body; a \<open>quiz_category\<close> without an id
  is accepted and answered as one with id 0, that is, over every category.
\<close>

theorem quiz_unprocessable:
  "(quiz randrange st body = abort 422 \<longleftrightarrow>
      b_previous_questions body = None \<or> b_quiz_category body = None) \<and>
   quiz randrange st
     \<lparr>b_previous_questions = Some previous_questions,
      b_quiz_category = Some \<lparr>qc_type = t, qc_id = None\<rparr>\<rparr> =
   quiz randrange st
     \<lparr>b_previous_questions = Some previous_questions,
      b_quiz_category = Some \<lparr>qc_type = t, qc_id = Some 0\<rparr>\<rparr> \<and>
   quiz randrange st
     \<lparr>b_previous_questions = Some previous_questions,
      b_quiz_category = Some \<lparr>qc_type = t, qc_id = None\<rparr>\<rparr> \<noteq> abort 422"
  by (auto simp add: quiz_def abort_def Let_def split: option.splits)

theorem quiz_unprocessable_witness:
  "quiz (\<lambda>n. 0) small_store \<lparr>b_previous_questions = None,
      b_quiz_category = Some \<lparr>qc_type = None, qc_id = Some 1\<rparr>\<rparr> = abort 422 \<and>
   quiz (\<lambda>n. 0) small_store \<lparr>b_previous_questions = Some [], b_quiz_category = None\<rparr> = abort 422 \<and>
   quiz (\<lambda>n. 0) small_store \<lparr>b_previous_questions = Some [],
      b_quiz_category = Some \<lparr>qc_type = None, qc_id = None\<rparr>\<rparr> =
     Inr \<lparr>qz_success = True, qz_question = Some (question_format mona_lisa)\<rparr>"
proof -
  have "quiz (\<lambda>n. 0) small_store \<lparr>b_previous_questions = Some [],
      b_quiz_category = Some \<lparr>qc_type = None, qc_id = Some 0\<rparr>\<rparr> =
     Inr \<lparr>qz_success = True, qz_question = Some (question_format mona_lisa)\<rparr>"
    by (simp add: quiz_def Let_def small_store_def filter_id_notin_def)
  then show ?thesis
    using quiz_unprocessable [of "\<lambda>n. 0" small_store "\<lparr>b_previous_questions = None,
        b_quiz_category = Some \<lparr>qc_type = None, qc_id = Some 1\<rparr>\<rparr>" "[]" None]
      quiz_unprocessable [of "\<lambda>n. 0" small_store
        "\<lparr>b_previous_questions = Some [], b_quiz_category = None\<rparr>" "[]" None]
    by simp
qed

lemma quiz_selection_eq:
  "(if category_id = 0 then filter_id_notin previous_questions rows
    else filter_id_notin previous_questions (filter_category category_id rows)) =
   quiz_candidates previous_questions category_id rows"
  by (auto simp: filter_id_notin_def filter_category_def quiz_candidates_def intro: filter_cong)

lemma quiz_by_candidates:
  assumes "b_previous_questions body = Some previous_questions"
    and "b_quiz_category body = Some quiz_category"
  shows "quiz randrange st body =
     (let selection = quiz_candidates previous_questions
            (case qc_id quiz_category of None \<Rightarrow> 0 | Some i \<Rightarrow> i) (st_questions st)
      in if length selection > 0 then
           (let r = randrange (length selection)
            in if r < length selection then
                 Inr \<lparr>qz_success = True, qz_question = Some (question_format (selection ! r))\<rparr>
               else Inl IndexError)
         else Inr \<lparr>qz_success = True, qz_question = None\<rparr>)"
  using assms by (simp add: quiz_def quiz_selection_eq Let_def)

text \<open>
  C2: with \<open>previous_questions\<close> and \<open>quiz_category\<close> present, the selection of
  the handler is the candidate set of the specification. When it is empty the response
  is \<open>question: null\<close> with success; otherwise the draw \<open>r\<close> of
  \<open>random.randrange(0, n)\<close> over the n indices returns the candidate at index
  \<open>r\<close>, formatted, so that every index is returned by exactly its own draw and a
  uniform draw is a uniform choice of index. With exactly one candidate the only draw
  is 0 and the response is that candidate, whose formatted id is its id.
\<close>

theorem quiz_selection:
  assumes "b_previous_questions body = Some previous_questions"
    and "b_quiz_category body = Some quiz_category"
    and "candidates = quiz_candidates previous_questions
           (case qc_id quiz_category of None \<Rightarrow> 0 | Some i \<Rightarrow> i) (st_questions st)"
  shows "(candidates = [] \<longrightarrow>
            quiz randrange st body = Inr \<lparr>qz_success = True, qz_question = None\<rparr>) \<and>
         (candidates \<noteq> [] \<and> randrange (length candidates) < length candidates \<longrightarrow>
            quiz randrange st body =
              Inr \<lparr>qz_success = True,
                   qz_question = Some (question_format (candidates ! randrange (length candidates)))\<rparr>) \<and>
         (\<forall>i < length candidates.
            quiz (\<lambda>n. i) st body =
              Inr \<lparr>qz_success = True, qz_question = Some (question_format (candidates ! i))\<rparr>) \<and>
         (\<forall>q. candidates = [q] \<and> randrange 1 < 1 \<longrightarrow>
            quiz randrange st body =
              Inr \<lparr>qz_success = True, qz_question = Some (question_format q)\<rparr> \<and>
            d_id (question_format q) = q_id q)"
  unfolding quiz_by_candidates [OF assms(1,2)] assms(3) [symmetric]
  by (auto simp add: Let_def question_format_def)

theorem quiz_selection_witness:
  "quiz (\<lambda>n. 0) small_store
     \<lparr>b_previous_questions = Some [],
      b_quiz_category = Some \<lparr>qc_type = Some ''Science'', qc_id = Some 1\<rparr>\<rparr> =
     Inr \<lparr>qz_success = True, qz_question = Some (question_format times_two)\<rparr> \<and>
   d_id (question_format times_two) = 5 \<and>
   quiz (\<lambda>n. 0) small_store
     \<lparr>b_previous_questions = Some [5],
      b_quiz_category = Some \<lparr>qc_type = Some ''Science'', qc_id = Some 1\<rparr>\<rparr> =
     Inr \<lparr>qz_success = True, qz_question = None\<rparr> \<and>
   quiz (\<lambda>n. 1) small_store
     \<lparr>b_previous_questions = Some [],
      b_quiz_category = Some \<lparr>qc_type = None, qc_id = Some 0\<rparr>\<rparr> =
     Inr \<lparr>qz_success = True, qz_question = Some (question_format times_two)\<rparr>"
  using
    quiz_selection [of "\<lparr>b_previous_questions = Some [],
        b_quiz_category = Some \<lparr>qc_type = Some ''Science'', qc_id = Some 1\<rparr>\<rparr>"
      "[]" "\<lparr>qc_type = Some ''Science'', qc_id = Some 1\<rparr>" "[times_two]" small_store "\<lambda>n. 0"]
    quiz_selection [of "\<lparr>b_previous_questions = Some [5],
        b_quiz_category = Some \<lparr>qc_type = Some ''Science'', qc_id = Some 1\<rparr>\<rparr>"
      "[5]" "\<lparr>qc_type = Some ''Science'', qc_id = Some 1\<rparr>" "[]" small_store "\<lambda>n. 0"]
    quiz_selection [of "\<lparr>b_previous_questions = Some [],
        b_quiz_category = Some \<lparr>qc_type = None, qc_id = Some 0\<rparr>\<rparr>"
      "[]" "\<lparr>qc_type = None, qc_id = Some 0\<rparr>" "[mona_lisa, times_two]" small_store "\<lambda>n. 1"]
  by (simp add: quiz_candidates_def small_store_def mona_lisa_def times_two_def question_format_def)

section \<open>\<open>POST /search\<close>\<close>

lemma lower_char_fixed:
  assumes "of_char x < (65::nat) \<or> (90 < (of_char x :: nat) \<and> (of_char x :: nat) < 97)"
  shows "lower_char c = x \<longleftrightarrow> c = x"
proof (cases "65 \<le> (of_char c :: nat) \<and> (of_char c :: nat) \<le> 90")
  case True
  then have "of_char (lower_char c) = (of_char c + 32 :: nat)"
    by (simp add: lower_char_def Let_def)
  with True assms show ?thesis by auto
next
  case False
  then show ?thesis by (auto simp add: lower_char_def Let_def)
qed

lemma lower_char_wildcards:
  "lower_char c = CHR ''%'' \<longleftrightarrow> c = CHR ''%''"
  "lower_char c = CHR ''_'' \<longleftrightarrow> c = CHR ''_''"
  "lower_char c = CHR 0x5C \<longleftrightarrow> c = CHR 0x5C"
  by (rule lower_char_fixed, simp)+

lemma lower_char_image_wildcards:
  "CHR ''%'' \<in> lower_char ` S \<longleftrightarrow> CHR ''%'' \<in> S"
  "CHR ''_'' \<in> lower_char ` S \<longleftrightarrow> CHR ''_'' \<in> S"
  "CHR 0x5C \<in> lower_char ` S \<longleftrightarrow> CHR 0x5C \<in> S"
  using lower_char_wildcards by (metis (no_types) image_iff)+

lemma wildcard_free_lower: "wildcard_free (lower t) \<longleftrightarrow> wildcard_free t"
  by (simp add: wildcard_free_def lower_def lower_char_image_wildcards)

lemma like_percent:
  "like (CHR ''%'' # ps) s \<longleftrightarrow> (\<exists>zs. suffix zs s \<and> like ps zs)"
proof (induction s)
  case Nil
  then show ?case by simp
next
  case (Cons c s)
  have "like (CHR ''%'' # ps) (c # s) \<longleftrightarrow> like ps (c # s) \<or> like (CHR ''%'' # ps) s"
    by simp
  also have "\<dots> \<longleftrightarrow> like ps (c # s) \<or> (\<exists>zs. suffix zs s \<and> like ps zs)"
    by (simp only: Cons.IH)
  also have "\<dots> \<longleftrightarrow> (\<exists>zs. suffix zs (c # s) \<and> like ps zs)"
    by (auto simp add: suffix_Cons)
  finally show ?case .
qed

lemma like_only_percent: "like ''%'' s"
  by (simp only: like_percent) (auto intro: exI [of _ "[]"])

lemma like_plain_prefix:
  "wildcard_free p \<Longrightarrow> like (p @ ''%'') s \<longleftrightarrow> prefix p s"
proof (induction p arbitrary: s)
  case Nil
  then show ?case using like_only_percent by simp
next
  case (Cons a p)
  then have a: "a \<noteq> CHR ''%''" "a \<noteq> CHR ''_''" "a \<noteq> CHR 0x5C" and p: "wildcard_free p"
    by (auto simp add: wildcard_free_def)
  show ?case
  proof (cases s)
    case Nil
    with a show ?thesis by simp
  next
    case (Cons c s')
    with a have "like ((a # p) @ ''%'') s \<longleftrightarrow> c = a \<and> like (p @ ''%'') s'"
      by simp
    also have "\<dots> \<longleftrightarrow> c = a \<and> prefix p s'"
      by (simp only: Cons.IH [OF p])
    finally show ?thesis using Cons by auto
  qed
qed

lemma like_contains:
  assumes "wildcard_free p"
  shows "like (''%'' @ p @ ''%'') s \<longleftrightarrow> sublist p s"
proof -
  have "like (''%'' @ p @ ''%'') s \<longleftrightarrow> (\<exists>zs. suffix zs s \<and> like (p @ ''%'') zs)"
    using like_percent [of "p @ ''%''" s] by simp
  also have "\<dots> \<longleftrightarrow> (\<exists>zs. suffix zs s \<and> prefix p zs)"
    by (simp only: like_plain_prefix [OF assms])
  finally show ?thesis by (simp only: sublist_altdef')
qed

lemma lower_percent: "lower (''%'' @ t @ ''%'') = ''%'' @ lower t @ ''%''"
  by (simp add: lower_def lower_char_def)

lemma ilike_contains:
  assumes "wildcard_free t"
  shows "ilike (''%'' @ t @ ''%'') txt \<longleftrightarrow> sublist (lower t) (lower txt)"
  unfolding ilike_def lower_percent
  using assms by (intro like_contains) (simp only: wildcard_free_lower)

lemma filter_ilike_contains:
  assumes "wildcard_free t"
  shows "filter_ilike (''%'' @ t @ ''%'') rows = filter_contains t rows"
  unfolding filter_ilike_def filter_contains_def
  using ilike_contains [OF assms]
  by (intro filter_cong [OF refl])
    (simp add: question_ilike_def question_contains_def split: option.splits)

text \<open>
  C4 (as amended): \<open>POST /search\<close> returns 422 if and only if the search term is
  missing or the empty string. Otherwise, for a search term that holds none of the
  characters \<open>%\<close>, \<open>_\<close> and backslash, the matching questions are those whose
  question text contains the term as a substring up to the case of letters; the
  payload holds the page selected by the page parameter (ten per page) of them, and
  \<open>total_questions\<close> is the number of all of them.
\<close>

theorem search_question_result:
  "(search_question st request search_term = abort 422 \<longleftrightarrow>
      search_term = None \<or> search_term = Some []) \<and>
   (\<forall>term. search_term = Some term \<and> term \<noteq> [] \<and> wildcard_free term \<longrightarrow>
      search_question st request search_term =
        Inr \<lparr>sq_success = True,
             sq_questions = paginate_questions request (filter_contains term (st_questions st)),
             sq_currentCategory = map q_category (filter_contains term (st_questions st)),
             sq_total_questions = length (filter_contains term (st_questions st))\<rparr>)"
proof (intro conjI allI impI)
  show "search_question st request search_term = abort 422 \<longleftrightarrow>
      search_term = None \<or> search_term = Some []"
    by (simp add: search_question_def abort_def Let_def split: option.splits)
next
  fix "term"
  assume a: "search_term = Some term \<and> term \<noteq> [] \<and> wildcard_free term"
  then have "filter_ilike (''%'' @ term @ ''%'') (st_questions st) =
      filter_contains term (st_questions st)"
    by (simp only: filter_ilike_contains)
  with a show "search_question st request search_term =
        Inr \<lparr>sq_success = True,
             sq_questions = paginate_questions request (filter_contains term (st_questions st)),
             sq_currentCategory = map q_category (filter_contains term (st_questions st)),
             sq_total_questions = length (filter_contains term (st_questions st))\<rparr>"
    by (simp add: search_question_def Let_def)
qed

theorem search_question_result_witness:
  "search_question capital_store \<lparr>args_page = None\<rparr> (Some ''capital'') =
     Inr \<lparr>sq_success = True,
          sq_questions = [\<lparr>d_id = 6, d_question = Some ''What is the Capital'',
             d_answer = Some ''Paris'', d_category = Some 3, d_difficulty = Some 1\<rparr>],
          sq_currentCategory = [Some 3],
          sq_total_questions = 1\<rparr> \<and>
   search_question capital_store \<lparr>args_page = None\<rparr> (Some []) = abort 422 \<and>
   search_question capital_store \<lparr>args_page = None\<rparr> None = abort 422"
proof -
  have w: "''capital'' \<noteq> [] \<and> wildcard_free ''capital''"
    by (simp add: wildcard_free_def)
  have f: "filter_contains ''capital'' (st_questions capital_store) =
      [\<lparr>q_id = 6, q_question = Some ''What is the Capital'', q_answer = Some ''Paris'',
         q_category = Some 3, q_difficulty = Some 1\<rparr>]"
    by code_simp
  have p: "paginate_questions \<lparr>args_page = None\<rparr>
      [\<lparr>q_id = 6, q_question = Some ''What is the Capital'', q_answer = Some ''Paris'',
         q_category = Some 3, q_difficulty = Some 1\<rparr>] =
      [\<lparr>d_id = 6, d_question = Some ''What is the Capital'',
             d_answer = Some ''Paris'', d_category = Some 3, d_difficulty = Some 1\<rparr>]"
    by (simp add: paginate_questions_def args_get_page_def QUESTIONS_PER_PAGE_def
        py_slice_def Let_def question_format_def)
  show ?thesis
    using search_question_result [of capital_store "\<lparr>args_page = None\<rparr>" "Some ''capital''"]
      search_question_result [of capital_store "\<lparr>args_page = None\<rparr>" "Some []"]
      search_question_result [of capital_store "\<lparr>args_page = None\<rparr>" None]
      w
    by (simp add: f p)
qed

text \<open>
  The claim as stated fails for a search term with a character that \<open>LIKE\<close> reads
  as a wildcard: the term \<open>100%\<close> matches the question "What is 100 times 2", which
  does not contain it. It also fails where more than ten questions match: of eleven
  matches the response lists ten.
\<close>

theorem search_question_counterexample:
  "search_question small_store \<lparr>args_page = None\<rparr> (Some ''100%'') =
     Inr \<lparr>sq_success = True,
          sq_questions = [question_format times_two],
          sq_currentCategory = [Some 1],
          sq_total_questions = 1\<rparr> \<and>
   filter_contains ''100%'' (st_questions small_store) = [] \<and>
   search_question example_store \<lparr>args_page = None\<rparr> (Some ''q'') =
     Inr \<lparr>sq_success = True,
          sq_questions = map question_format (take 10 eleven_questions),
          sq_currentCategory = map q_category eleven_questions,
          sq_total_questions = 11\<rparr> \<and>
   filter_contains ''q'' (st_questions example_store) = eleven_questions \<and>
   map question_format (take 10 eleven_questions) \<noteq> map question_format eleven_questions"
proof -
  have a: "filter_ilike (''%'' @ ''100%'' @ ''%'') (st_questions small_store) = [times_two]"
    by code_simp
  have b: "filter_contains ''100%'' (st_questions small_store) = []"
    by code_simp
  have c: "filter_ilike (''%'' @ ''q'' @ ''%'') (st_questions example_store) = eleven_questions"
    by code_simp
  have d: "filter_contains ''q'' (st_questions example_store) = eleven_questions"
    by code_simp
  have e: "paginate_questions \<lparr>args_page = None\<rparr> eleven_questions =
      map question_format (take 10 eleven_questions)"
    by (simp add: paginate_questions_def args_get_page_def QUESTIONS_PER_PAGE_def
        py_slice_def Let_def eleven_questions_def)
  have f: "paginate_questions \<lparr>args_page = None\<rparr> [times_two] = [question_format times_two]"
    by (simp add: paginate_questions_def args_get_page_def QUESTIONS_PER_PAGE_def
        py_slice_def Let_def)
  have g: "map question_format (take 10 eleven_questions) \<noteq> map question_format eleven_questions"
    by (simp add: eleven_questions_def)
  have h: "length eleven_questions = 11" "q_category times_two = Some 1"
    by (simp_all add: eleven_questions_def times_two_def)
  show ?thesis
    using a c by (simp add: search_question_def Let_def b d e f g h)
qed

text \<open>
  C10: the questions of the \<open>/search\<close> payload are the page of the matching
  questions that the page query parameter selects: for \<open>?page=p\<close> with
  \<open>p \<ge> 1\<close> the matches at positions \<open>10 * (p - 1)\<close> up to \<open>10 * p\<close>, the
  first ten matches when the parameter is absent, and none for \<open>?page=0\<close>. The list
  has at most ten items, all of them matches, so matches outside the page are left
  out, while \<open>total_questions\<close> counts all matches. The matches are the stored
  questions whose text the pattern \<open>%term%\<close> matches, that is, for a term without
  wildcard characters, those whose text contains the term up to case.
\<close>

theorem search_question_paginated:
  assumes "term \<noteq> []"
    and "matches = filter_ilike (''%'' @ term @ ''%'') (st_questions st)"
  shows "search_question st request (Some term) =
           Inr \<lparr>sq_success = True,
                sq_questions = paginate_questions request matches,
                sq_currentCategory = map q_category matches,
                sq_total_questions = length matches\<rparr> \<and>
         length (paginate_questions request matches) \<le> 10 \<and>
         set (paginate_questions request matches) \<subseteq> question_format ` set matches \<and>
         (\<forall>p. args_page request = Some p \<and> 1 \<le> p \<longrightarrow>
            search_question st request (Some term) =
              Inr \<lparr>sq_success = True,
                   sq_questions =
                     take 10 (drop (nat (10 * (p - 1))) (map question_format matches)),
                   sq_currentCategory = map q_category matches,
                   sq_total_questions = length matches\<rparr>) \<and>
         (args_page request = Some 0 \<longrightarrow>
            search_question st request (Some term) =
              Inr \<lparr>sq_success = True,
                   sq_questions = [],
                   sq_currentCategory = map q_category matches,
                   sq_total_questions = length matches\<rparr>) \<and>
         (args_page request = None \<longrightarrow>
            search_question st request (Some term) =
              Inr \<lparr>sq_success = True,
                   sq_questions = take 10 (map question_format matches),
                   sq_currentCategory = map q_category matches,
                   sq_total_questions = length matches\<rparr>) \<and>
         (\<forall>q. q \<in> set matches \<longleftrightarrow>
            q \<in> set (st_questions st) \<and>
            (\<exists>txt. q_question q = Some txt \<and> ilike (''%'' @ term @ ''%'') txt)) \<and>
         (wildcard_free term \<longrightarrow> matches = filter_contains term (st_questions st))"
proof -
  have res: "search_question st request (Some term) =
           Inr \<lparr>sq_success = True,
                sq_questions = paginate_questions request matches,
                sq_currentCategory = map q_category matches,
                sq_total_questions = length matches\<rparr>"
    using assms by (simp add: search_question_def Let_def)
  have some: "paginate_questions request matches =
      take 10 (drop (nat (10 * (p - 1))) (map question_format matches))"
    if "args_page request = Some p \<and> 1 \<le> p" for p
  proof -
    from that have "args_get_page request 1 = p" "1 \<le> args_get_page request 1"
      by (simp_all add: args_get_page_def)
    then show ?thesis using paginate_questions_take_drop [of request matches] by simp
  qed
  have zero: "paginate_questions request matches = []" if "args_page request = Some 0"
    using that by (simp add: paginate_questions_slice args_get_page_def py_slice_stop_zero)
  have none: "paginate_questions request matches = take 10 (map question_format matches)"
    if "args_page request = None"
  proof -
    from that have "args_get_page request 1 = 1" by (simp add: args_get_page_def)
    then show ?thesis using paginate_questions_take_drop [of request matches] by simp
  qed
  have mem: "q \<in> set matches \<longleftrightarrow>
      q \<in> set (st_questions st) \<and>
      (\<exists>txt. q_question q = Some txt \<and> ilike (''%'' @ term @ ''%'') txt)" for q
    unfolding assms(2) filter_ilike_def question_ilike_def
    by (cases "q_question q") simp_all
  have wf: "wildcard_free term \<Longrightarrow> matches = filter_contains term (st_questions st)"
    unfolding assms(2) by (rule filter_ilike_contains)
  show ?thesis
  proof (intro conjI allI impI)
    show "search_question st request (Some term) =
           Inr \<lparr>sq_success = True,
                sq_questions = paginate_questions request matches,
                sq_currentCategory = map q_category matches,
                sq_total_questions = length matches\<rparr>"
      by (rule res)
    show "length (paginate_questions request matches) \<le> 10"
      by (rule length_paginate_questions_le)
    show "set (paginate_questions request matches) \<subseteq> question_format ` set matches"
      by (rule set_paginate_questions)
    show "search_question st request (Some term) =
              Inr \<lparr>sq_success = True,
                   sq_questions =
                     take 10 (drop (nat (10 * (p - 1))) (map question_format matches)),
                   sq_currentCategory = map q_category matches,
                   sq_total_questions = length matches\<rparr>"
      if "args_page request = Some p \<and> 1 \<le> p" for p
      using some [OF that] by (simp only: res)
    show "search_question st request (Some term) =
              Inr \<lparr>sq_success = True,
                   sq_questions = [],
                   sq_currentCategory = map q_category matches,
                   sq_total_questions = length matches\<rparr>"
      if "args_page request = Some 0"
      using zero [OF that] by (simp only: res)
    show "search_question st request (Some term) =
              Inr \<lparr>sq_success = True,
                   sq_questions = take 10 (map question_format matches),
                   sq_currentCategory = map q_category matches,
                   sq_total_questions = length matches\<rparr>"
      if "args_page request = None"
      using none [OF that] by (simp only: res)
    show "q \<in> set matches \<longleftrightarrow>
            q \<in> set (st_questions st) \<and>
            (\<exists>txt. q_question q = Some txt \<and> ilike (''%'' @ term @ ''%'') txt)" for q
      by (rule mem)
    show "matches = filter_contains term (st_questions st)" if "wildcard_free term"
      using that by (rule wf)
  qed
qed

theorem search_question_paginated_witness:
  "search_question mixed_store \<lparr>args_page = Some 2\<rparr> (Some ''q'') =
     Inr \<lparr>sq_success = True,
          sq_questions = [question_format (example_question 11)],
          sq_currentCategory = map q_category eleven_questions,
          sq_total_questions = 11\<rparr> \<and>
   search_question mixed_store \<lparr>args_page = None\<rparr> (Some ''q'') =
     Inr \<lparr>sq_success = True,
          sq_questions = map question_format (take 10 eleven_questions),
          sq_currentCategory = map q_category eleven_questions,
          sq_total_questions = 11\<rparr> \<and>
   search_question mixed_store \<lparr>args_page = Some 0\<rparr> (Some ''q'') =
     Inr \<lparr>sq_success = True,
          sq_questions = [],
          sq_currentCategory = map q_category eleven_questions,
          sq_total_questions = 11\<rparr> \<and>
   length (st_questions mixed_store) = 13 \<and>
   hamlet \<notin> set eleven_questions \<and> untitled \<notin> set eleven_questions \<and>
   eleven_questions = filter_contains ''q'' (st_questions mixed_store)"
proof -
  have c: "eleven_questions = filter_ilike (''%'' @ ''q'' @ ''%'') (st_questions mixed_store)"
    by code_simp
  have h: "length eleven_questions = 11" "length (st_questions mixed_store) = 13"
    "hamlet \<notin> set eleven_questions" "untitled \<notin> set eleven_questions"
    by (simp_all add: eleven_questions_def mixed_store_def hamlet_def untitled_def
        example_question_def)
  have t: "take 10 (map question_format eleven_questions) =
      map question_format (take 10 eleven_questions)"
    "take 10 (drop 10 (map question_format eleven_questions)) =
      [question_format (example_question 11)]"
    by (simp_all add: eleven_questions_def)
  have w: "wildcard_free ''q''"
    by (simp add: wildcard_free_def)
  have p2: "search_question mixed_store \<lparr>args_page = Some 2\<rparr> (Some ''q'') =
     Inr \<lparr>sq_success = True,
          sq_questions = [question_format (example_question 11)],
          sq_currentCategory = map q_category eleven_questions,
          sq_total_questions = 11\<rparr>"
    using search_question_paginated [of "''q''" eleven_questions mixed_store
        "\<lparr>args_page = Some 2\<rparr>", OF _ c, THEN conjunct2, THEN conjunct2, THEN conjunct2,
        THEN conjunct1, rule_format, of 2]
    by (simp add: h t)
  have pn: "search_question mixed_store \<lparr>args_page = None\<rparr> (Some ''q'') =
     Inr \<lparr>sq_success = True,
          sq_questions = map question_format (take 10 eleven_questions),
          sq_currentCategory = map q_category eleven_questions,
          sq_total_questions = 11\<rparr>"
    using search_question_paginated [of "''q''" eleven_questions mixed_store
        "\<lparr>args_page = None\<rparr>", OF _ c, THEN conjunct2, THEN conjunct2, THEN conjunct2,
        THEN conjunct2, THEN conjunct2, THEN conjunct1]
    by (simp add: h t)
  have p0: "search_question mixed_store \<lparr>args_page = Some 0\<rparr> (Some ''q'') =
     Inr \<lparr>sq_success = True,
          sq_questions = [],
          sq_currentCategory = map q_category eleven_questions,
          sq_total_questions = 11\<rparr>"
    using search_question_paginated [of "''q''" eleven_questions mixed_store
        "\<lparr>args_page = Some 0\<rparr>", OF _ c, THEN conjunct2, THEN conjunct2, THEN conjunct2,
        THEN conjunct2, THEN conjunct1]
    by (simp add: h)
  have fc: "eleven_questions = filter_contains ''q'' (st_questions mixed_store)"
    using search_question_paginated [of "''q''" eleven_questions mixed_store
        "\<lparr>args_page = None\<rparr>", OF _ c, THEN conjunct2, THEN conjunct2, THEN conjunct2,
        THEN conjunct2, THEN conjunct2, THEN conjunct2, THEN conjunct2] w
    by simp
  from p2 pn p0 h(2,3,4) fc show ?thesis by (intro conjI)
qed


section \<open>\<open>POST /questions\<close> and \<open>DELETE /questions/<question_id>\<close>\<close>

lemma filter_key_eq_single:
  "distinct (map f xs) \<Longrightarrow> x \<in> set xs \<Longrightarrow> filter (\<lambda>y. f y = f x) xs = [x]"
proof (induction xs)
  case Nil
  then show ?case by simp
next
  case (Cons a xs)
  show ?case
  proof (cases "a = x")
    case True
    with Cons.prems have "f x \<notin> f ` set xs" by simp
    then have "\<forall>y \<in> set xs. f y \<noteq> f x" by (metis imageI)
    then have "filter (\<lambda>y. f y = f x) xs = []" by (simp add: filter_empty_conv)
    with True show ?thesis by simp
  next
    case False
    with Cons.prems have "x \<in> set xs" "f a \<noteq> f x" "distinct (map f xs)" by auto
    with Cons.IH show ?thesis by simp
  qed
qed

lemma filter_key_neq_remove1:
  "distinct (map f xs) \<Longrightarrow> x \<in> set xs \<Longrightarrow> filter (\<lambda>y. f y \<noteq> f x) xs = remove1 x xs"
proof (induction xs)
  case Nil
  then show ?case by simp
next
  case (Cons a xs)
  show ?case
  proof (cases "a = x")
    case True
    with Cons.prems have "f x \<notin> f ` set xs" by simp
    then have "\<forall>y \<in> set xs. f y \<noteq> f x" by (metis imageI)
    then have "filter (\<lambda>y. f y \<noteq> f x) xs = xs" by (simp add: filter_id_conv)
    with True show ?thesis by simp
  next
    case False
    with Cons.prems have "x \<in> set xs" "f a \<noteq> f x" "distinct (map f xs)" by auto
    with Cons.IH False show ?thesis by simp
  qed
qed

lemma filter_id_order_by_id:
  "filter_id i (order_by_id rows) = order_by_id (filter_id i rows)"
  by (simp add: filter_id_def order_by_id_def filter_sort)

lemma one_or_none_None: "one_or_none xs = Inr None \<longleftrightarrow> xs = []"
  by (cases xs rule: one_or_none.cases) simp_all

lemma one_or_none_Inl: "one_or_none xs = Inl e \<Longrightarrow> e = MultipleResultsFound"
  by (cases xs rule: one_or_none.cases) simp_all

lemma filter_id_empty: "filter_id i rows = [] \<longleftrightarrow> i \<notin> q_id ` set rows"
  by (auto simp add: filter_id_def filter_empty_conv)

lemma store_ok_insert:
  assumes "store_ok st"
  shows "store_ok (snd (question_insert a b c d st))"
  using assms by (fastforce simp add: store_ok_def question_insert_def Let_def)

lemma store_ok_fresh: "store_ok st \<Longrightarrow> st_next_id st \<notin> q_id ` set (st_questions st)"
  by (auto simp add: store_ok_def)

lemma store_ok_small_store: "store_ok small_store"
  by (simp add: store_ok_def small_store_def mona_lisa_def times_two_def)

text \<open>
  C5: \<open>POST /questions\<close> fails with 422 when the question or the answer is the
  empty string, before any insert, so that the store is unchanged. Otherwise a new
  record built from (question, answer, category, difficulty) is persisted after the
  stored ones, the response holds its id, and (on a store that keeps the invariant of
  the primary key) the id was not in use, the record is the one row with that id in
  the id-ordered listing, and the invariant is kept.
\<close>

theorem post_question_result:
  assumes "new = \<lparr>q_id = st_next_id st, q_question = b_question body, q_answer = b_answer body,
                   q_category = b_category body, q_difficulty = b_difficulty body\<rparr>"
    and "st' = st\<lparr>st_questions := st_questions st @ [new], st_next_id := st_next_id st + 1\<rparr>"
  shows "(b_question body = Some [] \<or> b_answer body = Some [] \<longrightarrow>
            post_question st request body = (abort 422, st)) \<and>
         (b_question body \<noteq> Some [] \<and> b_answer body \<noteq> Some [] \<longrightarrow>
            post_question st request body =
              (Inr \<lparr>pq_success = True,
                    pq_created = st_next_id st,
                    pq_questions = paginate_questions request (order_by_id (st_questions st')),
                    pq_total_questions = length (st_questions st) + 1\<rparr>, st')) \<and>
         (store_ok st \<longrightarrow>
            st_next_id st \<notin> q_id ` set (st_questions st) \<and>
            filter_id (st_next_id st) (order_by_id (st_questions st')) = [new] \<and>
            store_ok st')"
proof (intro conjI impI)
  assume "b_question body = Some [] \<or> b_answer body = Some []"
  then show "post_question st request body = (abort 422, st)"
    by (auto simp add: post_question_def Let_def)
next
  assume "b_question body \<noteq> Some [] \<and> b_answer body \<noteq> Some []"
  then show "post_question st request body =
      (Inr \<lparr>pq_success = True,
            pq_created = st_next_id st,
            pq_questions = paginate_questions request (order_by_id (st_questions st')),
            pq_total_questions = length (st_questions st) + 1\<rparr>, st')"
    by (simp add: post_question_def question_insert_def Let_def assms)
next
  assume ok: "store_ok st"
  then show fresh: "st_next_id st \<notin> q_id ` set (st_questions st)"
    by (rule store_ok_fresh)
  have st': "st' = snd (question_insert (b_question body) (b_answer body) (b_category body)
      (b_difficulty body) st)"
    by (simp add: question_insert_def Let_def assms)
  show ok': "store_ok st'"
    unfolding st' using ok by (rule store_ok_insert)
  have "new \<in> set (st_questions st')" by (simp add: assms(2))
  moreover have "distinct (map q_id (st_questions st'))"
    using ok' by (simp add: store_ok_def)
  ultimately have "filter (\<lambda>y. q_id y = q_id new) (st_questions st') = [new]"
    by (intro filter_key_eq_single)
  moreover have "q_id new = st_next_id st" by (simp add: assms(1))
  ultimately have "filter_id (st_next_id st) (st_questions st') = [new]"
    by (simp add: filter_id_def)
  then show "filter_id (st_next_id st) (order_by_id (st_questions st')) = [new]"
    by (simp only: filter_id_order_by_id) (simp add: order_by_id_def)
qed

theorem post_question_result_witness:
  "post_question small_store \<lparr>args_page = None\<rparr>
     \<lparr>b_question = Some ''Q'', b_answer = Some ''A'', b_category = Some 1, b_difficulty = Some 2\<rparr> =
     (Inr \<lparr>pq_success = True, pq_created = 6,
           pq_questions = map question_format [mona_lisa, times_two, question_q],
           pq_total_questions = 3\<rparr>,
      small_store\<lparr>st_questions := [mona_lisa, times_two, question_q], st_next_id := 7\<rparr>) \<and>
   post_question small_store \<lparr>args_page = None\<rparr>
     \<lparr>b_question = Some [], b_answer = Some ''A'', b_category = Some 1, b_difficulty = Some 2\<rparr> =
     (abort 422, small_store) \<and>
   filter_id 6 (order_by_id [mona_lisa, times_two, question_q]) = [question_q]"
proof -
  have s: "st_next_id small_store = 6" "st_questions small_store = [mona_lisa, times_two]"
    by (simp_all add: small_store_def)
  have o: "order_by_id [mona_lisa, times_two, question_q] = [mona_lisa, times_two, question_q]"
    by (simp add: order_by_id_def mona_lisa_def times_two_def question_q_def)
  have p: "paginate_questions \<lparr>args_page = None\<rparr> [mona_lisa, times_two, question_q] =
      map question_format [mona_lisa, times_two, question_q]"
    by (simp add: paginate_questions_def args_get_page_def QUESTIONS_PER_PAGE_def
        py_slice_def Let_def)
  have n: "question_q = \<lparr>q_id = st_next_id small_store, q_question = b_question body,
        q_answer = b_answer body, q_category = b_category body, q_difficulty = b_difficulty body\<rparr>"
    if "body = \<lparr>b_question = Some ''Q'', b_answer = Some ''A'', b_category = Some 1,
        b_difficulty = Some 2\<rparr>" for body
    using that by (simp add: question_q_def s)
  have n': "small_store\<lparr>st_questions := [mona_lisa, times_two, question_q], st_next_id := 7\<rparr> =
      small_store\<lparr>st_questions := st_questions small_store @ [question_q],
        st_next_id := st_next_id small_store + 1\<rparr>"
    by (simp add: s)
  have ok: "post_question small_store \<lparr>args_page = None\<rparr>
     \<lparr>b_question = Some ''Q'', b_answer = Some ''A'', b_category = Some 1, b_difficulty = Some 2\<rparr> =
     (Inr \<lparr>pq_success = True, pq_created = 6,
           pq_questions = map question_format [mona_lisa, times_two, question_q],
           pq_total_questions = 3\<rparr>,
      small_store\<lparr>st_questions := [mona_lisa, times_two, question_q], st_next_id := 7\<rparr>) \<and>
     filter_id 6 (order_by_id [mona_lisa, times_two, question_q]) = [question_q]"
    using post_question_result [OF n [OF refl] n', of "\<lparr>args_page = None\<rparr>"] store_ok_small_store
    by (simp add: s o p)
  have bad: "post_question small_store \<lparr>args_page = None\<rparr>
     \<lparr>b_question = Some [], b_answer = Some ''A'', b_category = Some 1, b_difficulty = Some 2\<rparr> =
     (abort 422, small_store)"
    using post_question_result [OF refl refl, of
        "\<lparr>b_question = Some [], b_answer = Some ''A'', b_category = Some 1, b_difficulty = Some 2\<rparr>"
        small_store "\<lparr>args_page = None\<rparr>"]
    by simp
  from ok bad show ?thesis by simp
qed

text \<open>
  C9: the 422 of \<open>POST /questions\<close> is returned only for a question or answer equal
  to the empty string; a body whose question or answer is absent passes the check (when
  the other field is not the empty string), and the handler inserts a record with that
  field null.
\<close>

theorem post_question_null_fields:
  "(fst (post_question st request body) = abort 422 \<longleftrightarrow>
      b_question body = Some [] \<or> b_answer body = Some []) \<and>
   ((b_question body = None \<or> b_answer body = None) \<and>
    b_question body \<noteq> Some [] \<and> b_answer body \<noteq> Some [] \<longrightarrow>
      fst (post_question st request body) \<noteq> abort 422 \<and>
      st_questions (snd (post_question st request body)) =
        st_questions st @
          [\<lparr>q_id = st_next_id st, q_question = b_question body, q_answer = b_answer body,
            q_category = b_category body, q_difficulty = b_difficulty body\<rparr>])"
  by (simp add: post_question_def question_insert_def abort_def Let_def)

theorem post_question_null_fields_witness:
  "fst (post_question small_store \<lparr>args_page = None\<rparr>
     \<lparr>b_question = None, b_answer = Some ''A'', b_category = Some 1, b_difficulty = None\<rparr>) \<noteq>
     abort 422 \<and>
   st_questions (snd (post_question small_store \<lparr>args_page = None\<rparr>
     \<lparr>b_question = None, b_answer = Some ''A'', b_category = Some 1, b_difficulty = None\<rparr>)) =
     [mona_lisa, times_two, question_null] \<and>
   fst (post_question small_store \<lparr>args_page = None\<rparr>
     \<lparr>b_question = None, b_answer = Some [], b_category = Some 1, b_difficulty = None\<rparr>) =
     abort 422"
  using
    post_question_null_fields [of small_store "\<lparr>args_page = None\<rparr>"
      "\<lparr>b_question = None, b_answer = Some ''A'', b_category = Some 1, b_difficulty = None\<rparr>"]
    post_question_null_fields [of small_store "\<lparr>args_page = None\<rparr>"
      "\<lparr>b_question = None, b_answer = Some [], b_category = Some 1, b_difficulty = None\<rparr>"]
  by (simp add: small_store_def question_null_def)

text \<open>
  C6: \<open>DELETE /questions/<question_id>\<close> returns 404 if and only if no stored
  question has the id, and then leaves the store as it was. When a question has the
  id (on a store that keeps the invariant of the primary key), exactly that one
  record is removed, the response echoes the id and counts one question less, and no
  page of any later listing holds a question of that id.
\<close>

theorem delete_question_result:
  "(fst (delete_question st request question_id) = abort 404 \<longleftrightarrow>
      question_id \<notin> q_id ` set (st_questions st)) \<and>
   (question_id \<notin> q_id ` set (st_questions st) \<longrightarrow>
      snd (delete_question st request question_id) = st) \<and>
   (\<forall>question st'.
      store_ok st \<and> question \<in> set (st_questions st) \<and> q_id question = question_id \<and>
      st' = st\<lparr>st_questions := remove1 question (st_questions st)\<rparr> \<longrightarrow>
        delete_question st request question_id =
          (Inr \<lparr>dq_success = True,
                dq_deleted = question_id,
                dq_questions = paginate_questions request (order_by_id (st_questions st')),
                dq_total_questions = length (st_questions st) - 1\<rparr>, st') \<and>
        length (st_questions st') + 1 = length (st_questions st) \<and>
        question_id \<notin> q_id ` set (st_questions st') \<and>
        (\<forall>request'. question_id \<notin>
           d_id ` set (paginate_questions request' (order_by_id (st_questions st')))) \<and>
        store_ok st')"
proof (intro conjI impI allI)
  show "fst (delete_question st request question_id) = abort 404 \<longleftrightarrow>
      question_id \<notin> q_id ` set (st_questions st)"
    by (auto simp add: delete_question_def abort_def Let_def one_or_none_None
        filter_id_empty [symmetric] split: sum.splits option.splits dest: one_or_none_Inl)
next
  assume "question_id \<notin> q_id ` set (st_questions st)"
  then have "one_or_none (filter_id question_id (st_questions st)) = Inr None"
    by (simp add: one_or_none_None filter_id_empty)
  then show "snd (delete_question st request question_id) = st"
    by (simp add: delete_question_def)
next
  fix question st'
  assume a: "store_ok st \<and> question \<in> set (st_questions st) \<and> q_id question = question_id \<and>
      st' = st\<lparr>st_questions := remove1 question (st_questions st)\<rparr>"
  then have q: "question \<in> set (st_questions st)" "q_id question = question_id"
    and st': "st' = st\<lparr>st_questions := remove1 question (st_questions st)\<rparr>"
    and d: "distinct (map q_id (st_questions st))"
    by (simp_all add: store_ok_def)
  have f: "filter_id question_id (st_questions st) = [question]"
    using filter_key_eq_single [OF d q(1)] q(2) by (simp add: filter_id_def)
  have del: "question_delete question st = st'"
    using filter_key_neq_remove1 [OF d q(1)] by (simp add: question_delete_def st')
  have len: "length (st_questions st') = length (st_questions st) - 1"
    using q(1) by (simp add: st' length_remove1)
  show gone: "question_id \<notin> q_id ` set (st_questions st')"
  proof -
    have "st_questions st' = filter (\<lambda>y. q_id y \<noteq> q_id question) (st_questions st)"
      using filter_key_neq_remove1 [OF d q(1)] by (simp add: st')
    then show ?thesis using q(2) by auto
  qed
  show "question_id \<notin>
      d_id ` set (paginate_questions request' (order_by_id (st_questions st')))" for request'
  proof
    assume "question_id \<in> d_id ` set (paginate_questions request' (order_by_id (st_questions st')))"
    then obtain x where x: "x \<in> set (paginate_questions request' (order_by_id (st_questions st')))"
      "d_id x = question_id" by auto
    with set_paginate_questions [of request' "order_by_id (st_questions st')"]
    obtain y where "y \<in> set (st_questions st')" "x = question_format y"
      by (auto simp add: order_by_id_def)
    with x(2) gone show False by (auto simp add: question_format_def)
  qed
  show "store_ok st'"
  proof -
    have "distinct (map q_id (remove1 question (st_questions st)))"
      using d by (simp add: distinct_map distinct_remove1 inj_on_def set_remove1_eq)
    moreover have "set (remove1 question (st_questions st)) \<subseteq> set (st_questions st)"
      by (rule set_remove1_subset)
    ultimately show ?thesis using a by (auto simp add: store_ok_def)
  qed
  show "delete_question st request question_id =
      (Inr \<lparr>dq_success = True,
            dq_deleted = question_id,
            dq_questions = paginate_questions request (order_by_id (st_questions st')),
            dq_total_questions = length (st_questions st) - 1\<rparr>, st')"
    by (simp add: delete_question_def f del Let_def len)
  from len q(1) show "length (st_questions st') + 1 = length (st_questions st)"
    by (cases "st_questions st") auto
qed

theorem delete_question_result_witness:
  "delete_question small_store \<lparr>args_page = None\<rparr> 4 =
     (Inr \<lparr>dq_success = True, dq_deleted = 4,
           dq_questions = [question_format times_two],
           dq_total_questions = 1\<rparr>,
      small_store\<lparr>st_questions := [times_two]\<rparr>) \<and>
   delete_question small_store \<lparr>args_page = None\<rparr> 9 = (abort 404, small_store)"
proof -
  have r: "remove1 mona_lisa (st_questions small_store) = [times_two]"
    "length (st_questions small_store) = 2"
    "q_id ` set (st_questions small_store) = {4, 5}"
    "q_id mona_lisa = 4" "mona_lisa \<in> set (st_questions small_store)"
    by (simp_all add: small_store_def mona_lisa_def times_two_def)
  have p: "paginate_questions \<lparr>args_page = None\<rparr> (order_by_id [times_two]) =
      [question_format times_two]"
    by (simp add: paginate_questions_def args_get_page_def QUESTIONS_PER_PAGE_def
        py_slice_def Let_def order_by_id_def)
  have four: "delete_question small_store \<lparr>args_page = None\<rparr> 4 =
     (Inr \<lparr>dq_success = True, dq_deleted = 4,
           dq_questions = [question_format times_two],
           dq_total_questions = 1\<rparr>,
      small_store\<lparr>st_questions := [times_two]\<rparr>)"
    using delete_question_result [of small_store "\<lparr>args_page = None\<rparr>" 4,
        THEN conjunct2, THEN conjunct2, rule_format,
        of mona_lisa "small_store\<lparr>st_questions := [times_two]\<rparr>"]
      store_ok_small_store
    by (simp add: r p)
  have "delete_question small_store \<lparr>args_page = None\<rparr> 9 =
      (fst (delete_question small_store \<lparr>args_page = None\<rparr> 9),
       snd (delete_question small_store \<lparr>args_page = None\<rparr> 9))"
    by simp
  then have nine: "delete_question small_store \<lparr>args_page = None\<rparr> 9 = (abort 404, small_store)"
    using delete_question_result [of small_store "\<lparr>args_page = None\<rparr>" 9]
    by (simp add: r)
  from four nine show ?thesis by simp
qed

end
